theory Spec2Isabelle
  imports Complex_Main
begin

section \<open>Station table\<close>

text \<open>
  The parsed GRDC table holds one row per station. \<^verbatim>\<open>parse_grdc_file\<close> converts the
  year columns with \<^verbatim>\<open>pd.to_numeric(..., errors='coerce')\<close>, so a year cell is a
  number or missing (NaN): \<open>None\<close> is the missing cell. Years are whole numbers, and a
  cell of the model holds the number that is stored in the column. pandas keeps such a
  column as 64-bit integers or, as soon as a cell is missing, as float64.
  Coordinates are only ever copied from the table into the result, never computed with.
  \<^verbatim>\<open>data.index\<close> is enumerated and every cell is read by position
  (\<^verbatim>\<open>.iloc[index_s]\<close>), so the table is the list of its rows in order.
\<close>

datatype py_error = ValueError | IndexError | KeyError | TypeError

record station =
  m_start :: "int option"
  m_end :: "int option"
  lat :: real
  long :: real

type_synonym table = "station list"

subsection \<open>Library operations used by the script\<close>

text \<open>
  \<^verbatim>\<open>np.min\<close> and \<open>np.max\<close> of a table column skip missing cells; with no number left
  (an empty column, or only missing cells) the result is itself missing.
\<close>

fun dropna :: "int option list \<Rightarrow> int list" where
  "dropna [] = []"
| "dropna (None # cells) = dropna cells"
| "dropna (Some v # cells) = v # dropna cells"

definition np_min :: "int option list \<Rightarrow> int option" where
  "np_min col = (case dropna col of [] \<Rightarrow> None | v # vs \<Rightarrow> Some (fold min vs v))"

definition np_max :: "int option list \<Rightarrow> int option" where
  "np_max col = (case dropna col of [] \<Rightarrow> None | v # vs \<Rightarrow> Some (fold max vs v))"

text \<open>
  \<^verbatim>\<open>np.arange(a, b).astype(int)\<close> works in the number type of its bounds. When both
  bounds lie between \<open>-2^53\<close> and \<open>2^53\<close> and are at most \<open>2^53\<close> apart, the bounds, their
  difference and every integer between them are exact in float64 as well as in 64-bit
  integers, and the result is the integers from \<open>a\<close> up to but excluding \<open>b\<close> (none when
  \<open>b \<le> a\<close>). Outside that range the result depends on the number type of the columns,
  which the table does not record: it is the parameter \<open>arange_wide\<close>. A missing bound
  raises \<^verbatim>\<open>ValueError\<close>.
\<close>

definition exact_range :: "int \<Rightarrow> int \<Rightarrow> bool" where
  "exact_range lo hi = (- (2 ^ 53) \<le> lo \<and> hi \<le> 2 ^ 53 \<and> hi - lo \<le> 2 ^ 53)"

definition np_arange ::
  "(int \<Rightarrow> int \<Rightarrow> py_error + int list) \<Rightarrow> int option \<Rightarrow> int option \<Rightarrow> py_error + int list" where
  "np_arange arange_wide a b =
     (case a of None \<Rightarrow> Inl ValueError
      | Some lo \<Rightarrow>
          (case b of None \<Rightarrow> Inl ValueError
           | Some hi \<Rightarrow> if exact_range lo hi then Inr [lo..hi - 1] else arange_wide lo hi))"

text \<open>
  \<^verbatim>\<open>np.arange\<close> on float64 bounds, as it is computed for columns with a missing cell.
  \<open>float64\<close> rounds an integer to the nearest double (53 significant bits, ties to
  even). The length is the rounded difference of the bounds, the step is the difference
  between the rounded \<open>start + 1\<close> and \<open>start\<close>, and element \<open>i\<close> is \<open>start + i * step\<close>,
  each operation rounded. \<^verbatim>\<open>astype(int)\<close> converts to 64-bit integers; a value outside
  their range converts to \<open>-2^63\<close> on x86-64.
\<close>

fun ulp :: "nat \<Rightarrow> nat" where
  "ulp m = (if m < 2 ^ 53 then 1 else 2 * ulp (m div 2))"

declare ulp.simps [simp del]

definition float64 :: "int \<Rightarrow> int" where
  "float64 v =
     (let m = nat \<bar>v\<bar>; u = ulp m; q = m div u; r = m mod u
      in sgn v * int ((if 2 * r < u \<or> (2 * r = u \<and> even q) then q else q + 1) * u))"

definition astype_int :: "int \<Rightarrow> int" where
  "astype_int v = (if - (2 ^ 63) \<le> v \<and> v < 2 ^ 63 then v else - (2 ^ 63))"

definition arange_float64 :: "int \<Rightarrow> int \<Rightarrow> py_error + int list" where
  "arange_float64 lo hi =
     (let start = float64 lo;
          stop = float64 hi;
          n = nat (float64 (stop - start));
          delta = float64 (start + 1) - start
      in Inr (map (\<lambda>i. astype_int (float64 (start + float64 (int i * delta)))) [0..<n]))"

text \<open>
  \<^verbatim>\<open>np.array(ls)\<close> of a list of \<open>(lon, lat)\<close> pairs is a two-dimensional array of shape
  \<open>(n, 2)\<close>; of the empty list it is a one-dimensional array of shape \<open>(0,)\<close>.
\<close>

datatype ndarray = Flat "real list" | Pairs "(real \<times> real) list"

definition np_array :: "(real \<times> real) list \<Rightarrow> ndarray" where
  "np_array ls = (if ls = [] then Flat [] else Pairs ls)"

fun array_len :: "ndarray \<Rightarrow> nat" where
  "array_len (Flat xs) = length xs"
| "array_len (Pairs rows) = length rows"

text \<open>\<^verbatim>\<open>arr[:, k]\<close>: too many indices for a one-dimensional array.\<close>

fun column :: "ndarray \<Rightarrow> nat \<Rightarrow> py_error + real list" where
  "column (Flat xs) k = Inl IndexError"
| "column (Pairs rows) k =
     (if k = 0 then Inr (map fst rows)
      else if k = 1 then Inr (map snd rows)
      else Inl IndexError)"

section \<open>Period derivation\<close>

definition get_data_period ::
  "(int \<Rightarrow> int \<Rightarrow> py_error + int list) \<Rightarrow> table \<Rightarrow>
   py_error + (int option \<times> int option \<times> int list)" where
  "get_data_period arange_wide data =
     (let first_year = np_min (map m_start data);
          last_year = np_max (map m_end data)
      in case np_arange arange_wide first_year last_year of
           Inl e \<Rightarrow> Inl e
         | Inr period \<Rightarrow> Inr (first_year, last_year, period))"

section \<open>Station counting and location collection\<close>

text \<open>
  The test of both inner loops:
  \<^verbatim>\<open>year >= data['m_start'].iloc[index_s] and year <= data['m_end'].iloc[index_s]\<close>.
  A comparison with a missing cell is false.
\<close>

definition operational :: "int \<Rightarrow> station \<Rightarrow> bool" where
  "operational year s =
     ((case m_start s of None \<Rightarrow> False | Some a \<Rightarrow> year \<ge> a) \<and>
      (case m_end s of None \<Rightarrow> False | Some b \<Rightarrow> year \<le> b))"

text \<open>
  The inner loop of \<^verbatim>\<open>count_stations\<close>, for one year at position \<open>index_p\<close>.
  \<open>stations\<close> is \<^verbatim>\<open>np.zeros_like(period)\<close> and \<open>index_p\<close> comes from
  \<^verbatim>\<open>enumerate(period)\<close>, so the position is always in range; the model on the store
  below has the \<^verbatim>\<open>IndexError\<close> written out. A count never exceeds the number of rows,
  so the integer type of the array does not overflow.
\<close>

fun count_year :: "table \<Rightarrow> int \<Rightarrow> nat \<Rightarrow> int list \<Rightarrow> int list" where
  "count_year [] year index_p stations = stations"
| "count_year (s # rest) year index_p stations =
     count_year rest year index_p
       (if operational year s then stations[index_p := stations ! index_p + 1]
        else stations)"

fun count_loop :: "table \<Rightarrow> (nat \<times> int) list \<Rightarrow> int list \<Rightarrow> int list" where
  "count_loop data [] stations = stations"
| "count_loop data ((index_p, year) # rest) stations =
     count_loop data rest (count_year data year index_p stations)"

definition count_stations :: "table \<Rightarrow> int list \<Rightarrow> int list" where
  "count_stations data period =
     count_loop data (enumerate 0 period) (replicate (length period) 0)"

text \<open>The inner loop of \<^verbatim>\<open>get_station_locations\<close>: \<open>ls\<close> grows by appending.\<close>

fun collect_year :: "table \<Rightarrow> int \<Rightarrow> (real \<times> real) list \<Rightarrow> (real \<times> real) list" where
  "collect_year [] year ls = ls"
| "collect_year (s # rest) year ls =
     collect_year rest year (if operational year s then ls @ [(long s, lat s)] else ls)"

fun locations_loop :: "table \<Rightarrow> int list \<Rightarrow> (int \<rightharpoonup> ndarray) \<Rightarrow> (int \<rightharpoonup> ndarray)" where
  "locations_loop data [] locations = locations"
| "locations_loop data (year # rest) locations =
     locations_loop data rest (locations(year \<mapsto> np_array (collect_year data year [])))"

definition get_station_locations :: "table \<Rightarrow> int list \<Rightarrow> (int \<rightharpoonup> ndarray)" where
  "get_station_locations data period = locations_loop data period Map.empty"

section \<open>The aggregation on a store\<close>

text \<open>
  Python passes the table and the period array by reference, and both functions write to
  arrays, lists and a dictionary. Here objects live in a store and are named by their
  address, so that it can be said which objects a call writes to. The functions above are
  the values these compute.
\<close>

type_synonym addr = nat

datatype obj =
    DataFrame table
  | IntArray "int list"
  | PyList "(real \<times> real) list"
  | CoordArray ndarray
  | Dict "(int \<times> addr) list"

type_synonym store = "obj list"

text \<open>A new object gets the next free address; no existing address changes.\<close>

definition alloc :: "store \<Rightarrow> obj \<Rightarrow> store \<times> addr" where
  "alloc st ob = (st @ [ob], length st)"

definition deref :: "store \<Rightarrow> addr \<Rightarrow> obj option" where
  "deref st a = (if a < length st then Some (st ! a) else None)"

text \<open>
  Reads of the table: the length of \<^verbatim>\<open>data.index\<close> and the cells of row \<open>index_s\<close>
  (\<^verbatim>\<open>data[col].iloc[index_s]\<close>). Using an address that holds no object of the
  expected kind is an error.
\<close>

definition index_size :: "store \<Rightarrow> addr \<Rightarrow> py_error + nat" where
  "index_size st data =
     (case deref st data of Some (DataFrame rows) \<Rightarrow> Inr (length rows) | _ \<Rightarrow> Inl TypeError)"

definition iloc :: "store \<Rightarrow> addr \<Rightarrow> nat \<Rightarrow> py_error + station" where
  "iloc st data index_s =
     (case deref st data of
        Some (DataFrame rows) \<Rightarrow>
          if index_s < length rows then Inr (rows ! index_s) else Inl IndexError
      | _ \<Rightarrow> Inl TypeError)"

definition array_size :: "store \<Rightarrow> addr \<Rightarrow> py_error + nat" where
  "array_size st a =
     (case deref st a of Some (IntArray xs) \<Rightarrow> Inr (length xs) | _ \<Rightarrow> Inl TypeError)"

definition array_get :: "store \<Rightarrow> addr \<Rightarrow> nat \<Rightarrow> py_error + int" where
  "array_get st a i =
     (case deref st a of
        Some (IntArray xs) \<Rightarrow> if i < length xs then Inr (xs ! i) else Inl IndexError
      | _ \<Rightarrow> Inl TypeError)"

text \<open>
  The writes of the two functions: \<^verbatim>\<open>stations[index_p] += 1\<close>,
  \<^verbatim>\<open>ls.append(coors)\<close>, \<^verbatim>\<open>np.array(ls)\<close> (a new array) and
  \<^verbatim>\<open>locations[year] = arr\<close>.
\<close>

definition array_incr :: "store \<Rightarrow> addr \<Rightarrow> nat \<Rightarrow> py_error + store" where
  "array_incr st a i =
     (case deref st a of
        Some (IntArray xs) \<Rightarrow>
          if i < length xs then Inr (st[a := IntArray (xs[i := xs ! i + 1])])
          else Inl IndexError
      | _ \<Rightarrow> Inl TypeError)"

definition list_append :: "store \<Rightarrow> addr \<Rightarrow> real \<times> real \<Rightarrow> py_error + store" where
  "list_append st a coors =
     (case deref st a of
        Some (PyList l) \<Rightarrow> Inr (st[a := PyList (l @ [coors])])
      | _ \<Rightarrow> Inl TypeError)"

definition np_array_st :: "store \<Rightarrow> addr \<Rightarrow> py_error + (store \<times> addr)" where
  "np_array_st st a =
     (case deref st a of
        Some (PyList l) \<Rightarrow> Inr (alloc st (CoordArray (np_array l)))
      | _ \<Rightarrow> Inl TypeError)"

fun dict_set :: "(int \<times> addr) list \<Rightarrow> int \<Rightarrow> addr \<Rightarrow> (int \<times> addr) list" where
  "dict_set [] k v = [(k, v)]"
| "dict_set ((k', v') # kvs) k v =
     (if k' = k then (k, v) # kvs else (k', v') # dict_set kvs k v)"

definition dict_setitem :: "store \<Rightarrow> addr \<Rightarrow> int \<Rightarrow> addr \<Rightarrow> py_error + store" where
  "dict_setitem st a k v =
     (case deref st a of
        Some (Dict d) \<Rightarrow> Inr (st[a := Dict (dict_set d k v)])
      | _ \<Rightarrow> Inl TypeError)"

text \<open>The dictionary as a map from years to arrays, read through the store.\<close>

definition dict_view :: "store \<Rightarrow> (int \<times> addr) list \<Rightarrow> (int \<rightharpoonup> ndarray)" where
  "dict_view st d = (\<lambda>k. case map_of d k of
        None \<Rightarrow> None
      | Some a \<Rightarrow> (case deref st a of Some (CoordArray arr) \<Rightarrow> Some arr | _ \<Rightarrow> None))"

text \<open>
  \<^verbatim>\<open>count_stations\<close> on the store: \<^verbatim>\<open>np.zeros_like(period)\<close> allocates the result,
  every year is read from the period array and every row from the table as the loops
  reach them.
\<close>

fun count_year_st :: "store \<Rightarrow> addr \<Rightarrow> addr \<Rightarrow> nat \<Rightarrow> int \<Rightarrow> nat list \<Rightarrow> py_error + store" where
  "count_year_st st data stations index_p year [] = Inr st"
| "count_year_st st data stations index_p year (index_s # rest) =
     (case iloc st data index_s of
        Inl e \<Rightarrow> Inl e
      | Inr s \<Rightarrow>
          if operational year s
          then (case array_incr st stations index_p of
                  Inl e \<Rightarrow> Inl e
                | Inr st' \<Rightarrow> count_year_st st' data stations index_p year rest)
          else count_year_st st data stations index_p year rest)"

fun count_loop_st :: "store \<Rightarrow> addr \<Rightarrow> addr \<Rightarrow> addr \<Rightarrow> nat list \<Rightarrow> py_error + store" where
  "count_loop_st st data period stations [] = Inr st"
| "count_loop_st st data period stations (index_p # rest) =
     (case array_get st period index_p of
        Inl e \<Rightarrow> Inl e
      | Inr year \<Rightarrow>
          (case index_size st data of
             Inl e \<Rightarrow> Inl e
           | Inr n \<Rightarrow>
               (case count_year_st st data stations index_p year [0..<n] of
                  Inl e \<Rightarrow> Inl e
                | Inr st' \<Rightarrow> count_loop_st st' data period stations rest)))"

definition count_stations_st :: "store \<Rightarrow> addr \<Rightarrow> addr \<Rightarrow> py_error + (store \<times> addr)" where
  "count_stations_st st data period =
     (case array_size st period of
        Inl e \<Rightarrow> Inl e
      | Inr n \<Rightarrow>
          (case alloc st (IntArray (replicate n 0)) of
             (st1, stations) \<Rightarrow>
               (case count_loop_st st1 data period stations [0..<n] of
                  Inl e \<Rightarrow> Inl e
                | Inr st' \<Rightarrow> Inr (st', stations))))"

text \<open>
  \<^verbatim>\<open>get_station_locations\<close> on the store: the dictionary, each list \<open>ls\<close> and each
  array are new objects.
\<close>

fun collect_year_st :: "store \<Rightarrow> addr \<Rightarrow> int \<Rightarrow> addr \<Rightarrow> nat list \<Rightarrow> py_error + store" where
  "collect_year_st st data year ls [] = Inr st"
| "collect_year_st st data year ls (index_s # rest) =
     (case iloc st data index_s of
        Inl e \<Rightarrow> Inl e
      | Inr s \<Rightarrow>
          if operational year s
          then (case list_append st ls (long s, lat s) of
                  Inl e \<Rightarrow> Inl e
                | Inr st' \<Rightarrow> collect_year_st st' data year ls rest)
          else collect_year_st st data year ls rest)"

fun locations_loop_st :: "store \<Rightarrow> addr \<Rightarrow> addr \<Rightarrow> addr \<Rightarrow> nat list \<Rightarrow> py_error + store" where
  "locations_loop_st st data period locations [] = Inr st"
| "locations_loop_st st data period locations (k # rest) =
     (case array_get st period k of
        Inl e \<Rightarrow> Inl e
      | Inr year \<Rightarrow>
          (case alloc st (PyList []) of
             (st1, ls) \<Rightarrow>
               (case index_size st1 data of
                  Inl e \<Rightarrow> Inl e
                | Inr n \<Rightarrow>
                    (case collect_year_st st1 data year ls [0..<n] of
                       Inl e \<Rightarrow> Inl e
                     | Inr st2 \<Rightarrow>
                         (case np_array_st st2 ls of
                            Inl e \<Rightarrow> Inl e
                          | Inr (st3, arr) \<Rightarrow>
                              (case dict_setitem st3 locations year arr of
                                 Inl e \<Rightarrow> Inl e
                               | Inr st4 \<Rightarrow>
                                   locations_loop_st st4 data period locations rest))))))"

definition get_station_locations_st :: "store \<Rightarrow> addr \<Rightarrow> addr \<Rightarrow> py_error + (store \<times> addr)" where
  "get_station_locations_st st data period =
     (case alloc st (Dict []) of
        (st1, locations) \<Rightarrow>
          (case array_size st1 period of
             Inl e \<Rightarrow> Inl e
           | Inr n \<Rightarrow>
               (case locations_loop_st st1 data period locations [0..<n] of
                  Inl e \<Rightarrow> Inl e
                | Inr st' \<Rightarrow> Inr (st', locations))))"

text \<open>
  Auxiliary notions for the loop of \<^verbatim>\<open>get_station_locations\<close>: every address stored in
  the dictionary holds a coordinate array, and the store after the body of the loop has
  run for one year.
\<close>

definition wf_dict :: "store \<Rightarrow> (int \<times> addr) list \<Rightarrow> bool" where
  "wf_dict st d = (\<forall>(k, a) \<in> set d. a < length st \<and> (\<exists>arr. st ! a = CoordArray arr))"

definition year_store :: "store \<Rightarrow> addr \<Rightarrow> (int \<times> addr) list \<Rightarrow> int \<Rightarrow> (real \<times> real) list \<Rightarrow> store" where
  "year_store st locations d year l =
     (st @ [PyList l, CoordArray (np_array l)])
       [locations := Dict (dict_set d year (Suc (length st)))]"

section \<open>Animation\<close>

text \<open>
  Indexing as numpy does it: \<^verbatim>\<open>xs[:i]\<close> never raises and counts a negative \<open>i\<close> from the
  end; \<^verbatim>\<open>xs[i]\<close> raises \<^verbatim>\<open>IndexError\<close> outside \<open>-len \<le> i < len\<close>.
\<close>

definition py_slice_to :: "'a list \<Rightarrow> int \<Rightarrow> 'a list" where
  "py_slice_to xs i =
     (if i < 0 then take (nat (int (length xs) + i)) xs else take (nat i) xs)"

definition py_getitem :: "'a list \<Rightarrow> int \<Rightarrow> py_error + 'a" where
  "py_getitem xs i =
     (if 0 \<le> i \<and> i < int (length xs) then Inr (xs ! nat i)
      else if i < 0 \<and> - int (length xs) \<le> i then Inr (xs ! nat (int (length xs) + i))
      else Inl IndexError)"

text \<open>\<^verbatim>\<open>str(year)\<close>: the decimal digits, with a minus sign for a negative year.\<close>

fun str_nat :: "nat \<Rightarrow> string" where
  "str_nat n =
     (if n < 10 then [''0123456789'' ! n]
      else str_nat (n div 10) @ [''0123456789'' ! (n mod 10)])"

declare str_nat.simps [simp del]

definition str_int :: "int \<Rightarrow> string" where
  "str_int i = (if i < 0 then CHR ''-'' # str_nat (nat (- i)) else str_nat (nat i))"

text \<open>
  The state of \<^verbatim>\<open>SubplotAnimation\<close>: the three inputs, the data of the three dynamic
  drawables (\<^verbatim>\<open>self.time\<close>, \<^verbatim>\<open>self.space\<close>, \<^verbatim>\<open>self.text\<close>), the list
  \<^verbatim>\<open>self._drawn_artists\<close>, and the parts of the figure that are set up once by
  \<^verbatim>\<open>__init__\<close>: axis labels and limits, and the layers of the map (continents,
  rivers, countries). The axis limits come from the module-level \<^verbatim>\<open>m_start\<close> and
  \<^verbatim>\<open>m_end\<close>.
\<close>

datatype artist = TimeLine | SpaceLine | TextLabel

record figure =
  ax1_xlabel :: string
  ax1_ylabel :: string
  ax1_xlim :: "int option \<times> int option"
  ax1_ylim :: "int \<times> int"
  ax2_xlabel :: string
  map_layers :: "string list"

record subplot_animation =
  self_stations :: "int list"
  self_locations :: "int \<rightharpoonup> ndarray"
  self_period :: "int list"
  self_time :: "int list \<times> int list"
  self_space :: "real list \<times> real list"
  self_text :: string
  self_drawn_artists :: "artist list"
  self_fig :: figure

definition subplot_animation_init ::
  "int list \<Rightarrow> (int \<rightharpoonup> ndarray) \<Rightarrow> int list \<Rightarrow> int option \<Rightarrow> int option \<Rightarrow> subplot_animation" where
  "subplot_animation_init stations locations period g_m_start g_m_end =
     \<lparr>self_stations = stations,
      self_locations = locations,
      self_period = period,
      self_time = ([], []),
      self_space = ([], []),
      self_text = [],
      self_drawn_artists = [],
      self_fig = \<lparr>ax1_xlabel = ''Time (year)'',
                  ax1_ylabel = ''GRDC stations'',
                  ax1_xlim = (g_m_start, g_m_end),
                  ax1_ylim = (0, 5000),
                  ax2_xlabel = ''GRDC stations'',
                  map_layers = [''continents'', ''rivers'', ''countries'']\<rparr>\<rparr>"

text \<open>
  \<^verbatim>\<open>_draw_frame\<close>. The line is set before anything can raise, so an exception leaves
  the object with the new line data: the error carries that state.
\<close>

definition draw_frame ::
  "subplot_animation \<Rightarrow> int \<Rightarrow> (py_error \<times> subplot_animation) + subplot_animation" where
  "draw_frame self i =
     (let self1 = self\<lparr>self_time := (py_slice_to (self_period self) i,
                                      py_slice_to (self_stations self) i)\<rparr>
      in case py_getitem (self_period self1) i of
           Inl e \<Rightarrow> Inl (e, self1)
         | Inr year \<Rightarrow>
             (case self_locations self1 year of
                None \<Rightarrow> Inl (KeyError, self1)
              | Some arr \<Rightarrow>
                  (case column arr 0 of
                     Inl e \<Rightarrow> Inl (e, self1)
                   | Inr lons \<Rightarrow>
                       (case column arr 1 of
                          Inl e \<Rightarrow> Inl (e, self1)
                        | Inr lats \<Rightarrow>
                            Inr (self1\<lparr>self_space := (lons, lats),
                                       self_text := str_int year,
                                       self_drawn_artists :=
                                         [TimeLine, SpaceLine, TextLabel]\<rparr>)))))"

definition new_frame_seq :: "subplot_animation \<Rightarrow> int list" where
  "new_frame_seq self = map int [0..<length (self_period self)]"

definition init_draw :: "subplot_animation \<Rightarrow> subplot_animation" where
  "init_draw self = self\<lparr>self_time := ([], []), self_space := ([], []), self_text := []\<rparr>"

section \<open>Example tables\<close>

text \<open>Two stations with ranges 2000 to 2005 and 2003 to 2010.\<close>

definition scenario_table :: table where
  "scenario_table =
     [\<lparr>m_start = Some 2000, m_end = Some 2005, lat = 48, long = 11\<rparr>,
      \<lparr>m_start = Some 2003, m_end = Some 2010, lat = 60, long = 17\<rparr>]"

definition scenario_period :: "int list" where
  "scenario_period = [2000, 2001, 2002, 2003, 2004, 2005, 2006, 2007, 2008, 2009]"

text \<open>One station measuring from 1990 to 1995.\<close>

definition single_station_table :: table where
  "single_station_table = [\<lparr>m_start = Some 1990, m_end = Some 1995, lat = 52, long = 5\<rparr>]"

text \<open>
  One station with the range \<open>2^53\<close> to \<open>2^53 + 4\<close> and one station without years: the
  missing cells make both year columns float64.
\<close>

definition wide_table :: table where
  "wide_table =
     [\<lparr>m_start = Some (2 ^ 53), m_end = Some (2 ^ 53 + 4), lat = 52, long = 5\<rparr>,
      \<lparr>m_start = None, m_end = None, lat = 48, long = 11\<rparr>]"

text \<open>
  Two stations with ranges 2000 to 2000 and 2002 to 2003: no station measures in 2001.
  The period is the one \<^verbatim>\<open>get_data_period\<close> derives for this table.
\<close>

definition gap_table :: table where
  "gap_table =
     [\<lparr>m_start = Some 2000, m_end = Some 2000, lat = 48, long = 11\<rparr>,
      \<lparr>m_start = Some 2002, m_end = Some 2003, lat = 60, long = 17\<rparr>]"

definition gap_period :: "int list" where
  "gap_period = [2000, 2001, 2002]"

definition gap_animation :: subplot_animation where
  "gap_animation =
     subplot_animation_init (count_stations gap_table gap_period)
       (get_station_locations gap_table gap_period) gap_period (Some 2000) (Some 2003)"

text \<open>The two-station table and its period as objects of a store.\<close>

definition scenario_store :: store where
  "scenario_store = [DataFrame scenario_table, IntArray scenario_period]"

section \<open>Period derivation: results\<close>

lemma np_min_Min: "dropna col \<noteq> [] \<Longrightarrow> np_min col = Some (Min (set (dropna col)))"
  by (cases "dropna col") (simp_all add: np_min_def Min.set_eq_fold del: set_simps)

lemma np_max_Max: "dropna col \<noteq> [] \<Longrightarrow> np_max col = Some (Max (set (dropna col)))"
  by (cases "dropna col") (simp_all add: np_max_def Max.set_eq_fold del: set_simps)

text \<open>
  C3: when the smallest start year of the table lies strictly below its largest end year,
  and both lie in the range where the number types of the columns are exact (between
  \<open>-2^53\<close> and \<open>2^53\<close>, at most \<open>2^53\<close> apart), \<^verbatim>\<open>get_data_period\<close> returns both bounds
  and a non-empty period of consecutive years whose minimum is the smallest start year
  and whose maximum is the largest end year minus one.
\<close>

theorem get_data_period_bounds:
  assumes "dropna (map m_start data) \<noteq> []" and "dropna (map m_end data) \<noteq> []"
    and "Min (set (dropna (map m_start data))) < Max (set (dropna (map m_end data)))"
    and "exact_range (Min (set (dropna (map m_start data))))
           (Max (set (dropna (map m_end data))))"
  shows "\<exists>period. get_data_period arange_wide data =
            Inr (Some (Min (set (dropna (map m_start data)))),
                 Some (Max (set (dropna (map m_end data)))), period) \<and>
          period \<noteq> [] \<and>
          Min (set period) = Min (set (dropna (map m_start data))) \<and>
          Max (set period) = Max (set (dropna (map m_end data))) - 1 \<and>
          (\<forall>i < length period. period ! i = Min (set (dropna (map m_start data))) + int i) \<and>
          set period = {y. Min (set (dropna (map m_start data))) \<le> y \<and>
                           y < Max (set (dropna (map m_end data)))}"
proof -
  define lo where "lo = Min (set (dropna (map m_start data)))"
  define hi where "hi = Max (set (dropna (map m_end data)))"
  have lt: "lo < hi" using assms(3) by (simp add: lo_def hi_def)
  have ex: "exact_range lo hi" using assms(4) by (simp add: lo_def hi_def)
  have g: "get_data_period arange_wide data = Inr (Some lo, Some hi, [lo..hi - 1])"
    using assms(1,2) ex
    by (simp add: get_data_period_def np_min_Min np_max_Max np_arange_def lo_def hi_def)
  have ne: "[lo..hi - 1] \<noteq> []" using lt by (simp add: upto.simps)
  have s: "set [lo..hi - 1] = {lo..hi - 1}" by simp
  have mn: "Min (set [lo..hi - 1]) = lo" unfolding s using lt by (intro Min_eqI) auto
  have mx: "Max (set [lo..hi - 1]) = hi - 1" unfolding s using lt by (intro Max_eqI) auto
  have nth: "\<forall>i < length [lo..hi - 1]. [lo..hi - 1] ! i = lo + int i" by simp
  have st: "set [lo..hi - 1] = {y. lo \<le> y \<and> y < hi}" by auto
  show ?thesis
    unfolding lo_def[symmetric] hi_def[symmetric] using g ne mn mx nth st by blast
qed

theorem get_data_period_bounds_witness:
  "exact_range 2000 2010 \<and>
   (\<forall>arange_wide.
      get_data_period arange_wide scenario_table = Inr (Some 2000, Some 2010, scenario_period)) \<and>
   Min (set scenario_period) = 2000 \<and> Max (set scenario_period) = 2009"
proof -
  have a: "dropna (map m_start scenario_table) \<noteq> []"
    and b: "dropna (map m_end scenario_table) \<noteq> []"
    and c: "Min (set (dropna (map m_start scenario_table)))
              < Max (set (dropna (map m_end scenario_table)))"
    by (simp_all add: scenario_table_def)
  have lo: "Min (set (dropna (map m_start scenario_table))) = 2000"
    and hi: "Max (set (dropna (map m_end scenario_table))) = 2010"
    by (simp_all add: scenario_table_def)
  have e: "exact_range 2000 2010" by (simp add: exact_range_def)
  have d: "exact_range (Min (set (dropna (map m_start scenario_table))))
             (Max (set (dropna (map m_end scenario_table))))"
    unfolding lo hi by (rule e)
  have g: "get_data_period arange_wide scenario_table =
           Inr (Some 2000, Some 2010, scenario_period)" for arange_wide
    by (simp add: get_data_period_def scenario_table_def scenario_period_def
        np_min_def np_max_def np_arange_def exact_range_def)
  from get_data_period_bounds [OF a b c d, of arange_float64] obtain period where
    p: "get_data_period arange_float64 scenario_table = Inr (Some 2000, Some 2010, period)"
    and mn: "Min (set period) = 2000" and mx: "Max (set period) = 2010 - 1"
    unfolding lo hi by blast
  from p g [of arange_float64] have "period = scenario_period" by simp
  then show ?thesis using e g mn mx by simp
qed

lemma ulp_small: "m < 2 ^ 53 \<Longrightarrow> ulp m = 1"
  by (simp add: ulp.simps)

lemma ulp_next: "2 ^ 53 \<le> m \<Longrightarrow> m < 2 ^ 54 \<Longrightarrow> ulp m = 2"
  by (subst ulp.simps) (simp add: ulp_small)

lemma float64_exact: "\<bar>v\<bar> < 2 ^ 53 \<Longrightarrow> float64 v = v"
  by (simp add: float64_def ulp_small Let_def sgn_if)

lemma float64_2_53: "float64 9007199254740992 = 9007199254740992"
  by (simp add: float64_def ulp_next Let_def)

lemma float64_2_53_1: "float64 9007199254740993 = 9007199254740992"
  by (simp add: float64_def ulp_next Let_def)

lemma float64_2_53_4: "float64 9007199254740996 = 9007199254740996"
  by (simp add: float64_def ulp_next Let_def)

lemma arange_float64_2_53:
  "arange_float64 (2 ^ 53) (2 ^ 53 + 4) = Inr [2 ^ 53, 2 ^ 53, 2 ^ 53, 2 ^ 53]"
  by (simp add: arange_float64_def float64_2_53 float64_2_53_1 float64_2_53_4 Let_def
      float64_exact astype_int_def eval_nat_numeral)

text \<open>
  Without the bound on the years the statement fails. In \<open>wide_table\<close> the smallest
  start year \<open>2^53\<close> lies below the largest end year \<open>2^53 + 4\<close>, and both columns are
  float64. There \<open>2^53 + 1\<close> rounds to \<open>2^53\<close>, the step of \<^verbatim>\<open>np.arange\<close> is 0, and the
  period is four times \<open>2^53\<close>: its maximum is not the largest end year minus one and
  its years are not consecutive.
\<close>

theorem get_data_period_bounds_counterexample:
  "dropna (map m_start wide_table) \<noteq> [] \<and> dropna (map m_end wide_table) \<noteq> [] \<and>
   Min (set (dropna (map m_start wide_table))) = 2 ^ 53 \<and>
   Max (set (dropna (map m_end wide_table))) = 2 ^ 53 + 4 \<and>
   Min (set (dropna (map m_start wide_table))) < Max (set (dropna (map m_end wide_table))) \<and>
   get_data_period arange_float64 wide_table =
     Inr (Some (2 ^ 53), Some (2 ^ 53 + 4), [2 ^ 53, 2 ^ 53, 2 ^ 53, 2 ^ 53]) \<and>
   Max (set [2 ^ 53, 2 ^ 53, 2 ^ 53, 2 ^ 53 :: int]) \<noteq> (2 ^ 53 + 4) - 1 \<and>
   [2 ^ 53, 2 ^ 53, 2 ^ 53, 2 ^ 53 :: int] ! 1 \<noteq> 2 ^ 53 + 1"
proof -
  have cols: "dropna (map m_start wide_table) = [2 ^ 53]"
    "dropna (map m_end wide_table) = [2 ^ 53 + 4]"
    by (simp_all add: wide_table_def)
  have ne: "\<not> exact_range (2 ^ 53) (2 ^ 53 + 4)"
    by (simp add: exact_range_def)
  have g: "get_data_period arange_float64 wide_table =
     Inr (Some (2 ^ 53), Some (2 ^ 53 + 4), [2 ^ 53, 2 ^ 53, 2 ^ 53, 2 ^ 53])"
    using ne arange_float64_2_53
    by (simp add: get_data_period_def np_min_def np_max_def np_arange_def cols)
  show ?thesis
    using g by (simp add: cols)
qed

text \<open>
  C4: the period is meant to span the years up to the largest end year, and both inner
  loops treat a station's end year as a year of operation. For the table of one station
  measuring from 1990 to 1995 the derived period stops at 1994, although the station is
  operational in 1995.
\<close>

theorem get_data_period_drops_last_year:
  "get_data_period arange_wide single_station_table =
     Inr (Some 1990, Some 1995, [1990, 1991, 1992, 1993, 1994]) \<and>
   operational 1995 (single_station_table ! 0) \<and>
   1995 \<notin> set [1990, 1991, 1992, 1993, 1994 :: int]"
  by (simp add: get_data_period_def single_station_table_def np_min_def np_max_def
      np_arange_def exact_range_def operational_def)

text \<open>
  C5: with no stations in the table, \<^verbatim>\<open>get_data_period\<close> raises instead of returning an
  empty period.
\<close>

theorem get_data_period_empty_raises: "get_data_period arange_wide [] = Inl ValueError"
  by (simp add: get_data_period_def np_min_def np_max_def np_arange_def)

section \<open>Counting and collection: results\<close>

lemma length_count_year: "length (count_year data year i xs) = length xs"
  by (induction data arbitrary: xs) auto

lemma count_year_eq:
  "i < length xs \<Longrightarrow>
   count_year data year i xs = xs[i := xs ! i + int (length (filter (operational year) data))]"
  by (induction data arbitrary: xs) (auto simp: add.assoc)

lemma length_count_loop: "length (count_loop data ps xs) = length xs"
  by (induction data ps xs rule: count_loop.induct) (auto simp: length_count_year)

lemma count_loop_nth:
  "n + length ys \<le> length xs \<Longrightarrow> j < length xs \<Longrightarrow>
   count_loop data (enumerate n ys) xs ! j =
     (if n \<le> j \<and> j < n + length ys
      then xs ! j + int (length (filter (operational (ys ! (j - n))) data))
      else xs ! j)"
proof (induction ys arbitrary: n xs)
  case Nil
  then show ?case by auto
next
  case (Cons y ys)
  define c where "c = int (length (filter (operational y) data))"
  define xs' where "xs' = xs[n := xs ! n + c]"
  have n: "n < length xs" using Cons.prems by simp
  have len: "length xs' = length xs" by (simp add: xs'_def)
  have "count_loop data (enumerate n (y # ys)) xs ! j =
        count_loop data (enumerate (Suc n) ys) xs' ! j"
    using n by (simp add: count_year_eq xs'_def c_def)
  also have "\<dots> = (if Suc n \<le> j \<and> j < Suc n + length ys
      then xs' ! j + int (length (filter (operational (ys ! (j - Suc n))) data))
      else xs' ! j)"
    using Cons.prems len by (intro Cons.IH) auto
  finally show ?case using Cons.prems n
    by (auto simp: xs'_def c_def nth_list_update nth_Cons')
qed

lemma count_stations_nth:
  "i < length period \<Longrightarrow>
   count_stations data period ! i = int (length (filter (operational (period ! i)) data))"
  unfolding count_stations_def by (simp add: count_loop_nth)

lemma length_count_stations: "length (count_stations data period) = length period"
  unfolding count_stations_def by (simp add: length_count_loop)

lemma collect_year_eq:
  "collect_year data year ls = ls @ map (\<lambda>s. (long s, lat s)) (filter (operational year) data)"
  by (induction data arbitrary: ls) auto

lemma locations_loop_lookup:
  "locations_loop data ys m y =
     (if y \<in> set ys then Some (np_array (collect_year data y [])) else m y)"
  by (induction ys arbitrary: m) auto

lemma get_station_locations_lookup:
  "get_station_locations data period y =
     (if y \<in> set period then Some (np_array (collect_year data y [])) else None)"
  unfolding get_station_locations_def by (simp add: locations_loop_lookup)

lemma array_len_np_array: "array_len (np_array ls) = length ls"
  by (simp add: np_array_def)

text \<open>
  C1: at every position of the period, the count of \<^verbatim>\<open>count_stations\<close> equals the length
  of the coordinate array that \<^verbatim>\<open>get_station_locations\<close> stores under that year.
\<close>

theorem count_agrees_with_locations:
  "i < length period \<Longrightarrow>
   \<exists>arr. get_station_locations data period (period ! i) = Some arr \<and>
         count_stations data period ! i = int (array_len arr)"
  by (simp add: get_station_locations_lookup count_stations_nth array_len_np_array
      collect_year_eq)

theorem count_agrees_with_locations_witness:
  "(4::nat) < length scenario_period \<and>
   (\<exists>arr. get_station_locations scenario_table scenario_period 2004 = Some arr \<and>
          count_stations scenario_table scenario_period ! 4 = int (array_len arr))"
  using count_agrees_with_locations [of 4 scenario_period scenario_table]
  by (simp add: scenario_period_def)



text \<open>
  C7: every count returned by \<^verbatim>\<open>count_stations\<close> is at least zero and at most the
  number of stations in the table.
\<close>

theorem count_stations_bounded:
  "\<forall>c \<in> set (count_stations data period). 0 \<le> c \<and> c \<le> int (length data)"
proof
  fix c assume "c \<in> set (count_stations data period)"
  then obtain i where i: "i < length period" and c: "c = count_stations data period ! i"
    by (auto simp: in_set_conv_nth length_count_stations)
  show "0 \<le> c \<and> c \<le> int (length data)"
    using i by (simp add: c count_stations_nth)
qed

theorem count_stations_bounded_witness:
  "count_stations scenario_table scenario_period = [1, 1, 1, 2, 2, 2, 1, 1, 1, 1] \<and>
   2 \<in> set (count_stations scenario_table scenario_period) \<and>
   (0::int) \<le> 2 \<and> 2 \<le> int (length scenario_table)"
proof -
  have e: "count_stations scenario_table scenario_period = [1, 1, 1, 2, 2, 2, 1, 1, 1, 1]"
    by (simp add: count_stations_def scenario_table_def scenario_period_def operational_def)
  have m: "2 \<in> set (count_stations scenario_table scenario_period)"
    unfolding e by simp
  show ?thesis
    using count_stations_bounded [of scenario_table scenario_period] e m by blast
qed

text \<open>
  C6: for the two stations with ranges 2000 to 2005 and 2003 to 2010 the derived period
  is 2000 to 2009, the count for 2004 (position 4) is 2, the count for 2001 (position 1)
  is 1, and 2010 is no year of the period: no count is computed and no locations are
  stored for it.
\<close>

theorem scenario_two_stations:
  "get_data_period arange_wide scenario_table = Inr (Some 2000, Some 2010, scenario_period) \<and>
   scenario_period = [2000, 2001, 2002, 2003, 2004, 2005, 2006, 2007, 2008, 2009] \<and>
   scenario_period ! 4 = 2004 \<and> count_stations scenario_table scenario_period ! 4 = 2 \<and>
   scenario_period ! 1 = 2001 \<and> count_stations scenario_table scenario_period ! 1 = 1 \<and>
   2010 \<notin> set scenario_period \<and>
   length (count_stations scenario_table scenario_period) = 10 \<and>
   get_station_locations scenario_table scenario_period 2010 = None"
  by (simp add: get_data_period_def scenario_table_def scenario_period_def np_min_def
      np_max_def np_arange_def exact_range_def count_stations_def operational_def
      get_station_locations_def np_array_def)

section \<open>Animation: results\<close>

lemma py_getitem_nat: "i < length xs \<Longrightarrow> py_getitem xs (int i) = Inr (xs ! i)"
  by (simp add: py_getitem_def)

lemma py_slice_to_nat: "py_slice_to xs (int i) = take i xs"
  by (simp add: py_slice_to_def)

lemma column_np_array:
  "ls \<noteq> [] \<Longrightarrow> column (np_array ls) 0 = Inr (map fst ls) \<and> column (np_array ls) 1 = Inr (map snd ls)"
  by (simp add: np_array_def)

lemma column_np_array_empty: "column (np_array []) k = Inl IndexError"
  by (simp add: np_array_def)

lemma collect_year_nonempty:
  "collect_year data year [] \<noteq> [] \<longleftrightarrow> (\<exists>s \<in> set data. operational year s)"
  by (simp add: collect_year_eq filter_empty_conv)

lemma draw_frame_active:
  assumes loc: "self_locations self = get_station_locations data (self_period self)"
    and i: "i < length (self_period self)"
    and act: "\<exists>s \<in> set data. operational (self_period self ! i) s"
  shows "draw_frame self (int i) =
     Inr (self\<lparr>self_time := (take i (self_period self), take i (self_stations self)),
               self_space := (map long (filter (operational (self_period self ! i)) data),
                              map lat (filter (operational (self_period self ! i)) data)),
               self_text := str_int (self_period self ! i),
               self_drawn_artists := [TimeLine, SpaceLine, TextLabel]\<rparr>)"
proof -
  let ?year = "self_period self ! i"
  have mem: "?year \<in> set (self_period self)" using i by simp
  have ne: "collect_year data ?year [] \<noteq> []" using act by (simp add: collect_year_nonempty)
  have l: "self_locations self ?year = Some (np_array (collect_year data ?year []))"
    using mem by (simp add: loc get_station_locations_lookup)
  show ?thesis
    using i column_np_array [OF ne]
    by (simp add: draw_frame_def py_getitem_nat py_slice_to_nat l collect_year_eq comp_def)
qed

lemma draw_frame_idle:
  assumes loc: "self_locations self = get_station_locations data (self_period self)"
    and i: "i < length (self_period self)"
    and act: "\<not> (\<exists>s \<in> set data. operational (self_period self ! i) s)"
  shows "draw_frame self (int i) =
     Inl (IndexError, self\<lparr>self_time := (take i (self_period self), take i (self_stations self))\<rparr>)"
proof -
  let ?year = "self_period self ! i"
  have mem: "?year \<in> set (self_period self)" using i by simp
  have ne: "collect_year data ?year [] = []" using act collect_year_nonempty by blast
  have l: "self_locations self ?year = Some (np_array [])"
    using mem by (simp add: loc get_station_locations_lookup ne)
  show ?thesis
    using i
    by (simp add: draw_frame_def py_getitem_nat py_slice_to_nat l column_np_array_empty)
qed

lemma new_frame_seq_set:
  "set (new_frame_seq self) = {i. 0 \<le> i \<and> i < int (length (self_period self))}"
proof (intro set_eqI iffI)
  fix i assume "i \<in> set (new_frame_seq self)"
  then obtain k where "k < length (self_period self)" and "i = int k"
    unfolding new_frame_seq_def by auto
  then show "i \<in> {i. 0 \<le> i \<and> i < int (length (self_period self))}" by simp
next
  fix i assume "i \<in> {i. 0 \<le> i \<and> i < int (length (self_period self))}"
  then have k: "nat i < length (self_period self)" and ik: "i = int (nat i)" by auto
  have "int (nat i) \<in> int ` set [0..<length (self_period self)]"
    using k by (intro imageI) simp
  then show "i \<in> set (new_frame_seq self)"
    unfolding new_frame_seq_def using ik by simp
qed

lemma frame_year_defined:
  assumes loc: "self_locations self = get_station_locations data (self_period self)"
    and k: "k < length (self_period self)"
  shows "\<exists>arr. py_getitem (self_period self) (int k) = Inr (self_period self ! k) \<and>
              self_locations self (self_period self ! k) = Some arr \<and>
              ((\<exists>s \<in> set data. operational (self_period self ! k) s) \<longrightarrow>
                 (\<exists>lons lats self'. column arr 0 = Inr lons \<and> column arr 1 = Inr lats \<and>
                    draw_frame self (int k) = Inr self' \<and> self_space self' = (lons, lats)))"
proof (intro exI conjI impI)
  show "py_getitem (self_period self) (int k) = Inr (self_period self ! k)"
    by (rule py_getitem_nat [OF k])
  show "self_locations self (self_period self ! k) =
        Some (np_array (collect_year data (self_period self ! k) []))"
    using k by (simp add: loc get_station_locations_lookup)
  assume act: "\<exists>s \<in> set data. operational (self_period self ! k) s"
  then have ne: "collect_year data (self_period self ! k) [] \<noteq> []"
    by (simp add: collect_year_nonempty)
  show "column (np_array (collect_year data (self_period self ! k) [])) 0 =
        Inr (map fst (collect_year data (self_period self ! k) []))"
    using column_np_array [OF ne] by simp
  show "column (np_array (collect_year data (self_period self ! k) [])) 1 =
        Inr (map snd (collect_year data (self_period self ! k) []))"
    using column_np_array [OF ne] by simp
  show "draw_frame self (int k) =
     Inr (self\<lparr>self_time := (take k (self_period self), take k (self_stations self)),
               self_space := (map long (filter (operational (self_period self ! k)) data),
                              map lat (filter (operational (self_period self ! k)) data)),
               self_text := str_int (self_period self ! k),
               self_drawn_artists := [TimeLine, SpaceLine, TextLabel]\<rparr>)"
    by (rule draw_frame_active [OF loc k act])
  show "self_space (self\<lparr>self_time := (take k (self_period self), take k (self_stations self)),
               self_space := (map long (filter (operational (self_period self ! k)) data),
                              map lat (filter (operational (self_period self ! k)) data)),
               self_text := str_int (self_period self ! k),
               self_drawn_artists := [TimeLine, SpaceLine, TextLabel]\<rparr>) =
        (map fst (collect_year data (self_period self ! k) []),
         map snd (collect_year data (self_period self ! k) []))"
    by (simp add: collect_year_eq comp_def)
qed

text \<open>
  C9: the frame sequence is 0, 1, ... up to the length of the period minus one, and for
  each of its frames \<^verbatim>\<open>period[i]\<close> is in bounds, the locations hold that year, and when
  a station is operational that year both columns are extracted and the frame is drawn.
\<close>

theorem frame_accesses_defined:
  assumes loc: "self_locations self = get_station_locations data (self_period self)"
  shows "new_frame_seq self = map int [0..<length (self_period self)] \<and>
     length (new_frame_seq self) = length (self_period self) \<and>
     set (new_frame_seq self) = {i. 0 \<le> i \<and> i < int (length (self_period self))} \<and>
     (\<forall>i \<in> set (new_frame_seq self).
        \<exists>arr. py_getitem (self_period self) i = Inr (self_period self ! nat i) \<and>
              self_locations self (self_period self ! nat i) = Some arr \<and>
              ((\<exists>s \<in> set data. operational (self_period self ! nat i) s) \<longrightarrow>
                 (\<exists>lons lats self'. column arr 0 = Inr lons \<and> column arr 1 = Inr lats \<and>
                    draw_frame self i = Inr self' \<and> self_space self' = (lons, lats))))"
proof (intro conjI ballI)
  show "new_frame_seq self = map int [0..<length (self_period self)]"
    by (simp add: new_frame_seq_def)
  show "length (new_frame_seq self) = length (self_period self)"
    by (simp add: new_frame_seq_def)
  show "set (new_frame_seq self) = {i. 0 \<le> i \<and> i < int (length (self_period self))}"
    by (rule new_frame_seq_set)
next
  fix i assume "i \<in> set (new_frame_seq self)"
  then have k: "nat i < length (self_period self)" and ik: "int (nat i) = i"
    unfolding new_frame_seq_set by auto
  show "\<exists>arr. py_getitem (self_period self) i = Inr (self_period self ! nat i) \<and>
              self_locations self (self_period self ! nat i) = Some arr \<and>
              ((\<exists>s \<in> set data. operational (self_period self ! nat i) s) \<longrightarrow>
                 (\<exists>lons lats self'. column arr 0 = Inr lons \<and> column arr 1 = Inr lats \<and>
                    draw_frame self i = Inr self' \<and> self_space self' = (lons, lats)))"
    using frame_year_defined [OF loc k] unfolding ik .
qed

theorem frame_accesses_defined_witness:
  "self_locations gap_animation = get_station_locations gap_table (self_period gap_animation) \<and>
   new_frame_seq gap_animation = [0, 1, 2] \<and>
   py_getitem (self_period gap_animation) 2 = Inr 2002 \<and>
   (\<exists>s \<in> set gap_table. operational 2002 s) \<and>
   (\<exists>self'. draw_frame gap_animation 2 = Inr self' \<and> self_space self' = ([17], [60]))"
proof -
  have loc: "self_locations gap_animation =
             get_station_locations gap_table (self_period gap_animation)"
    by (simp add: gap_animation_def subplot_animation_init_def)
  have per: "self_period gap_animation = [2000, 2001, 2002]"
    by (simp add: gap_animation_def subplot_animation_init_def gap_period_def)
  have seq: "new_frame_seq gap_animation = [0, 1, 2]"
    by (simp add: new_frame_seq_def per upt_rec_numeral)
  have mem: "2 \<in> set (new_frame_seq gap_animation)"
    unfolding seq by simp
  have year: "self_period gap_animation ! nat 2 = 2002"
    unfolding per by (simp add: eval_nat_numeral)
  have act: "\<exists>s \<in> set gap_table. operational 2002 s"
    by (simp add: gap_table_def operational_def)
  have arr: "self_locations gap_animation 2002 = Some (Pairs [(17, 60)])"
    by (simp add: gap_animation_def subplot_animation_init_def get_station_locations_def
        gap_period_def gap_table_def operational_def np_array_def)
  from frame_accesses_defined [OF loc] mem
  have "\<exists>arr. py_getitem (self_period gap_animation) 2 =
               Inr (self_period gap_animation ! nat 2) \<and>
             self_locations gap_animation (self_period gap_animation ! nat 2) = Some arr \<and>
             ((\<exists>s \<in> set gap_table. operational (self_period gap_animation ! nat 2) s) \<longrightarrow>
                (\<exists>lons lats self'. column arr 0 = Inr lons \<and> column arr 1 = Inr lats \<and>
                   draw_frame gap_animation 2 = Inr self' \<and> self_space self' = (lons, lats)))"
    by blast
  then obtain lons lats self' where
    g: "py_getitem (self_period gap_animation) 2 = Inr 2002"
    and c0: "column (Pairs [(17, 60)]) 0 = Inr lons"
    and c1: "column (Pairs [(17, 60)]) 1 = Inr lats"
    and d: "draw_frame gap_animation 2 = Inr self'"
    and sp: "self_space self' = (lons, lats)"
    unfolding year using act arr by auto
  from c0 c1 have "lons = [17]" and "lats = [60]" by simp_all
  with sp have "self_space self' = ([17], [60])" by simp
  with d have "\<exists>self'. draw_frame gap_animation 2 = Inr self' \<and> self_space self' = ([17], [60])"
    by blast
  with loc seq g act show ?thesis by blast
qed

text \<open>
  C8: a frame is meant to set the line, replace the point cloud and update the label for
  every frame of the sequence. For the table with ranges 2000 to 2000 and 2002 to 2003
  the frame of 2001, a year without operational station, sets the line and then raises
  \<^verbatim>\<open>IndexError\<close>: the array stored for 2001 has one dimension, the point cloud and the
  label keep their old values.
\<close>

theorem draw_frame_raises_in_idle_year:
  "get_data_period arange_wide gap_table = Inr (Some 2000, Some 2003, gap_period) \<and>
   new_frame_seq gap_animation = [0, 1, 2] \<and>
   self_locations gap_animation 2001 = Some (Flat []) \<and>
   (\<exists>self'. draw_frame gap_animation 1 = Inl (IndexError, self') \<and>
      self_time self' = ([2000], [1]) \<and> self_space self' = ([], []) \<and>
      self_text self' = [] \<and> self_drawn_artists self' = [])"
proof -
  have p: "get_data_period arange_wide gap_table = Inr (Some 2000, Some 2003, gap_period)"
    by (simp add: get_data_period_def gap_table_def gap_period_def np_min_def np_max_def
        np_arange_def exact_range_def)
  have s: "new_frame_seq gap_animation = [0, 1, 2]"
    by (simp add: new_frame_seq_def gap_animation_def subplot_animation_init_def
        gap_period_def upt_rec_numeral)
  have l: "self_locations gap_animation 2001 = Some (Flat [])"
    by (simp add: gap_animation_def subplot_animation_init_def get_station_locations_def
        gap_period_def gap_table_def operational_def np_array_def)
  have d: "\<exists>self'. draw_frame gap_animation 1 = Inl (IndexError, self') \<and>
      self_time self' = ([2000], [1]) \<and> self_space self' = ([], []) \<and>
      self_text self' = [] \<and> self_drawn_artists self' = []"
    by (simp add: draw_frame_def gap_animation_def subplot_animation_init_def gap_table_def
        gap_period_def py_slice_to_def py_getitem_def get_station_locations_def
        operational_def np_array_def count_stations_def)
  from p s l d show ?thesis by blast
qed

section \<open>The aggregation on a store: results\<close>

lemma deref_in: "a < length st \<Longrightarrow> deref st a = Some (st ! a)"
  by (simp add: deref_def)

lemma iloc_row:
  "data < length st \<Longrightarrow> st ! data = DataFrame rows \<Longrightarrow> k < length rows \<Longrightarrow>
   iloc st data k = Inr (rows ! k)"
  by (simp add: iloc_def deref_in)

lemma index_size_rows:
  "data < length st \<Longrightarrow> st ! data = DataFrame rows \<Longrightarrow> index_size st data = Inr (length rows)"
  by (simp add: index_size_def deref_in)

lemma array_get_nth:
  "a < length st \<Longrightarrow> st ! a = IntArray xs \<Longrightarrow> i < length xs \<Longrightarrow>
   array_get st a i = Inr (xs ! i)"
  by (simp add: array_get_def deref_in)

lemma array_size_len:
  "a < length st \<Longrightarrow> st ! a = IntArray xs \<Longrightarrow> array_size st a = Inr (length xs)"
  by (simp add: array_size_def deref_in)

lemma array_incr_upd:
  "a < length st \<Longrightarrow> st ! a = IntArray xs \<Longrightarrow> i < length xs \<Longrightarrow>
   array_incr st a i = Inr (st[a := IntArray (xs[i := xs ! i + 1])])"
  by (simp add: array_incr_def deref_in)

lemma count_year_st_eq:
  assumes "data < length st" and "st ! data = DataFrame rows"
    and "stations < length st" and "st ! stations = IntArray xs"
    and "index_p < length xs" and "\<forall>k \<in> set ks. k < length rows"
  shows "count_year_st st data stations index_p year ks =
         Inr (st[stations := IntArray (count_year (map ((!) rows) ks) year index_p xs)])"
  using assms
proof (induction ks arbitrary: st xs)
  case Nil
  then show ?case using list_update_id [of st stations] by simp
next
  case (Cons k ks)
  have ne: "data \<noteq> stations" using Cons.prems by auto
  have row: "iloc st data k = Inr (rows ! k)"
    using Cons.prems by (simp add: iloc_row)
  show ?case
  proof (cases "operational year (rows ! k)")
    case True
    define xs' where "xs' = xs[index_p := xs ! index_p + 1]"
    define st' where "st' = st[stations := IntArray xs']"
    have inc: "array_incr st stations index_p = Inr st'"
      using Cons.prems by (simp add: array_incr_upd st'_def xs'_def)
    have "count_year_st st' data stations index_p year ks =
          Inr (st'[stations := IntArray (count_year (map ((!) rows) ks) year index_p xs')])"
      using Cons.prems ne by (intro Cons.IH) (simp_all add: st'_def xs'_def)
    then show ?thesis
      using True row inc by (simp add: st'_def xs'_def)
  next
    case False
    have "count_year_st st data stations index_p year ks =
          Inr (st[stations := IntArray (count_year (map ((!) rows) ks) year index_p xs)])"
      using Cons.prems by (intro Cons.IH) simp_all
    then show ?thesis using False row by simp
  qed
qed

lemma count_loop_st_eq:
  assumes "data < length st" and "st ! data = DataFrame rows"
    and "period < length st" and "st ! period = IntArray p"
    and "stations < length st" and "st ! stations = IntArray xs"
    and "period \<noteq> stations"
    and "\<forall>k \<in> set ks. k < length p \<and> k < length xs"
  shows "count_loop_st st data period stations ks =
         Inr (st[stations := IntArray (count_loop rows (map (\<lambda>k. (k, p ! k)) ks) xs)])"
  using assms
proof (induction ks arbitrary: st xs)
  case Nil
  then show ?case using list_update_id [of st stations] by simp
next
  case (Cons k ks)
  have ne: "data \<noteq> stations" using Cons.prems by auto
  define xs' where "xs' = count_year rows (p ! k) k xs"
  define st' where "st' = st[stations := IntArray xs']"
  have y: "array_get st period k = Inr (p ! k)"
    using Cons.prems by (simp add: array_get_nth)
  have n: "index_size st data = Inr (length rows)"
    using Cons.prems by (simp add: index_size_rows)
  have "count_year_st st data stations k (p ! k) [0..<length rows] =
        Inr (st[stations := IntArray (count_year (map ((!) rows) [0..<length rows]) (p ! k) k xs)])"
    using Cons.prems by (intro count_year_st_eq) simp_all
  then have inner: "count_year_st st data stations k (p ! k) [0..<length rows] = Inr st'"
    by (simp add: map_nth st'_def xs'_def)
  have "count_loop_st st' data period stations ks =
        Inr (st'[stations := IntArray (count_loop rows (map (\<lambda>k. (k, p ! k)) ks) xs')])"
    using Cons.prems ne
    by (intro Cons.IH) (simp_all add: st'_def xs'_def length_count_year)
  then show ?case
    using y n inner by (simp add: st'_def xs'_def)
qed

lemma enumerate_as_map: "enumerate 0 p = map (\<lambda>k. (k, p ! k)) [0..<length p]"
  by (rule nth_equalityI) (simp_all add: nth_enumerate_eq)

lemma count_stations_st_eq:
  assumes "data < length st" and "st ! data = DataFrame rows"
    and "period < length st" and "st ! period = IntArray p"
  shows "count_stations_st st data period =
         Inr (st @ [IntArray (count_stations rows p)], length st)"
proof -
  define st1 where "st1 = st @ [IntArray (replicate (length p) 0)]"
  have "count_loop_st st1 data period (length st) [0..<length p] =
        Inr (st1[length st := IntArray (count_loop rows (map (\<lambda>k. (k, p ! k)) [0..<length p])
                                           (replicate (length p) 0))])"
    using assms by (intro count_loop_st_eq) (simp_all add: st1_def nth_append)
  then have "count_loop_st st1 data period (length st) [0..<length p] =
        Inr (st @ [IntArray (count_stations rows p)])"
    by (simp add: st1_def count_stations_def enumerate_as_map)
  then show ?thesis
    using assms by (simp add: count_stations_st_def array_size_len alloc_def st1_def)
qed

lemma list_append_upd:
  "a < length st \<Longrightarrow> st ! a = PyList l \<Longrightarrow>
   list_append st a c = Inr (st[a := PyList (l @ [c])])"
  by (simp add: list_append_def deref_in)

lemma np_array_st_alloc:
  "a < length st \<Longrightarrow> st ! a = PyList l \<Longrightarrow>
   np_array_st st a = Inr (st @ [CoordArray (np_array l)], length st)"
  by (simp add: np_array_st_def deref_in alloc_def)

lemma dict_setitem_upd:
  "a < length st \<Longrightarrow> st ! a = Dict d \<Longrightarrow>
   dict_setitem st a k v = Inr (st[a := Dict (dict_set d k v)])"
  by (simp add: dict_setitem_def deref_in)

lemma map_of_dict_set: "map_of (dict_set d k v) = (map_of d)(k \<mapsto> v)"
  by (induction d k v rule: dict_set.induct) auto

lemma set_dict_set: "set (dict_set d k v) \<subseteq> insert (k, v) (set d)"
  by (induction d k v rule: dict_set.induct) auto

lemma collect_year_st_eq:
  assumes "data < length st" and "st ! data = DataFrame rows"
    and "ls < length st" and "st ! ls = PyList l"
    and "\<forall>k \<in> set ks. k < length rows"
  shows "collect_year_st st data year ls ks =
         Inr (st[ls := PyList (collect_year (map ((!) rows) ks) year l)])"
  using assms
proof (induction ks arbitrary: st l)
  case Nil
  then show ?case using list_update_id [of st ls] by simp
next
  case (Cons k ks)
  have ne: "data \<noteq> ls" using Cons.prems by auto
  have row: "iloc st data k = Inr (rows ! k)"
    using Cons.prems by (simp add: iloc_row)
  show ?case
  proof (cases "operational year (rows ! k)")
    case True
    define l' where "l' = l @ [(long (rows ! k), lat (rows ! k))]"
    define st' where "st' = st[ls := PyList l']"
    have app: "list_append st ls (long (rows ! k), lat (rows ! k)) = Inr st'"
      using Cons.prems by (simp add: list_append_upd st'_def l'_def)
    have "collect_year_st st' data year ls ks =
          Inr (st'[ls := PyList (collect_year (map ((!) rows) ks) year l')])"
      using Cons.prems ne by (intro Cons.IH) (simp_all add: st'_def)
    then show ?thesis
      using True row app by (simp add: st'_def l'_def)
  next
    case False
    have "collect_year_st st data year ls ks =
          Inr (st[ls := PyList (collect_year (map ((!) rows) ks) year l)])"
      using Cons.prems by (intro Cons.IH) simp_all
    then show ?thesis using False row by simp
  qed
qed

lemma locations_loop_st_step:
  assumes "data < length st" and "st ! data = DataFrame rows"
    and "period < length st" and "st ! period = IntArray p"
    and "locations < length st" and "st ! locations = Dict d"
    and "k < length p"
  shows "locations_loop_st st data period locations (k # ks) =
         locations_loop_st (year_store st locations d (p ! k) (collect_year rows (p ! k) []))
           data period locations ks"
proof -
  define l where "l = collect_year rows (p ! k) []"
  define st1 where "st1 = st @ [PyList []]"
  define st2 where "st2 = st @ [PyList l]"
  define st3 where "st3 = st @ [PyList l, CoordArray (np_array l)]"
  have y: "array_get st period k = Inr (p ! k)"
    using assms by (simp add: array_get_nth)
  have a: "alloc st (PyList []) = (st1, length st)"
    by (simp add: alloc_def st1_def)
  have n: "index_size st1 data = Inr (length rows)"
    using assms by (intro index_size_rows) (simp_all add: st1_def nth_append)
  have "collect_year_st st1 data (p ! k) (length st) [0..<length rows] =
        Inr (st1[length st := PyList (collect_year (map ((!) rows) [0..<length rows]) (p ! k) [])])"
    using assms by (intro collect_year_st_eq) (simp_all add: st1_def nth_append)
  then have c: "collect_year_st st1 data (p ! k) (length st) [0..<length rows] = Inr st2"
    by (simp add: map_nth st1_def st2_def l_def)
  have "np_array_st st2 (length st) = Inr (st2 @ [CoordArray (np_array l)], length st2)"
    by (intro np_array_st_alloc) (simp_all add: st2_def)
  then have arr: "np_array_st st2 (length st) = Inr (st3, Suc (length st))"
    by (simp add: st2_def st3_def)
  have s: "dict_setitem st3 locations (p ! k) (Suc (length st)) =
           Inr (st3[locations := Dict (dict_set d (p ! k) (Suc (length st)))])"
    using assms by (intro dict_setitem_upd) (simp_all add: st3_def nth_append)
  show ?thesis
    using y a n c arr s by (simp add: year_store_def st3_def l_def)
qed

lemma year_store_length:
  "locations < length st \<Longrightarrow> length (year_store st locations d year l) = length st + 2"
  by (simp add: year_store_def)

lemma year_store_dict:
  "locations < length st \<Longrightarrow>
   year_store st locations d year l ! locations = Dict (dict_set d year (Suc (length st)))"
  by (simp add: year_store_def)

lemma year_store_old:
  "a < length st \<Longrightarrow> a \<noteq> locations \<Longrightarrow> year_store st locations d year l ! a = st ! a"
  by (simp add: year_store_def nth_append)

lemma year_store_array:
  "locations < length st \<Longrightarrow>
   year_store st locations d year l ! Suc (length st) = CoordArray (np_array l)"
  by (simp add: year_store_def nth_append)

lemma wf_dict_year_store:
  assumes "locations < length st" and "st ! locations = Dict d" and "wf_dict st d"
  shows "wf_dict (year_store st locations d year l) (dict_set d year (Suc (length st)))"
  unfolding wf_dict_def
proof (intro ballI, clarify)
  fix k a assume "(k, a) \<in> set (dict_set d year (Suc (length st)))"
  then consider "(k, a) \<in> set d" | "a = Suc (length st)"
    using set_dict_set [of d year "Suc (length st)"] by auto
  then show "a < length (year_store st locations d year l) \<and>
             (\<exists>arr. year_store st locations d year l ! a = CoordArray arr)"
  proof cases
    case 1
    then have a: "a < length st" and c: "\<exists>arr. st ! a = CoordArray arr"
      using assms(3) by (auto simp: wf_dict_def)
    then have "a \<noteq> locations" using assms(2) by auto
    then show ?thesis
      using a c year_store_length [OF assms(1)] by (simp add: year_store_old)
  next
    case 2
    then show ?thesis
      using year_store_length [OF assms(1)] year_store_array [OF assms(1)] by simp
  qed
qed

lemma dict_view_year_store:
  assumes "locations < length st" and "st ! locations = Dict d" and "wf_dict st d"
  shows "dict_view (year_store st locations d year l) (dict_set d year (Suc (length st))) =
         (dict_view st d)(year \<mapsto> np_array l)"
proof (rule ext)
  fix y
  let ?st' = "year_store st locations d year l"
  show "dict_view ?st' (dict_set d year (Suc (length st))) y =
        ((dict_view st d)(year \<mapsto> np_array l)) y"
  proof (cases "y = year")
    case True
    then show ?thesis
      using year_store_length [OF assms(1)] year_store_array [OF assms(1)]
      by (simp add: dict_view_def map_of_dict_set deref_def)
  next
    case False
    show ?thesis
    proof (cases "map_of d y")
      case None
      then show ?thesis using False by (simp add: dict_view_def map_of_dict_set)
    next
      case (Some a)
      then have "(y, a) \<in> set d" by (rule map_of_SomeD)
      then have a: "a < length st" and c: "\<exists>arr. st ! a = CoordArray arr"
        using assms(3) by (auto simp: wf_dict_def)
      then have "a \<noteq> locations" using assms(2) by auto
      then have "?st' ! a = st ! a" and "a < length ?st'"
        using a year_store_length [OF assms(1)] by (simp_all add: year_store_old)
      then show ?thesis
        using False Some a by (simp add: dict_view_def map_of_dict_set deref_def)
    qed
  qed
qed

lemma locations_loop_st_ok:
  assumes "data < length st" and "st ! data = DataFrame rows"
    and "period < length st" and "st ! period = IntArray p"
    and "locations < length st" and "st ! locations = Dict d"
    and "wf_dict st d" and "\<forall>k \<in> set ks. k < length p"
  shows "\<exists>st' d'. locations_loop_st st data period locations ks = Inr st' \<and>
           length st \<le> length st' \<and>
           (\<forall>a < length st. a \<noteq> locations \<longrightarrow> st' ! a = st ! a) \<and>
           st' ! locations = Dict d' \<and>
           dict_view st' d' = locations_loop rows (map ((!) p) ks) (dict_view st d)"
  using assms
proof (induction ks arbitrary: st d)
  case Nil
  then show ?case by simp
next
  case (Cons k ks)
  define l where "l = collect_year rows (p ! k) []"
  define st4 where "st4 = year_store st locations d (p ! k) l"
  define d4 where "d4 = dict_set d (p ! k) (Suc (length st))"
  have f1: "length st4 = length st + 2"
    unfolding st4_def by (rule year_store_length [OF Cons.prems(5)])
  have f3: "st4 ! a = st ! a" if "a < length st" and "a \<noteq> locations" for a
    unfolding st4_def using that by (rule year_store_old)
  have k: "k < length p" using Cons.prems(8) by simp
  have step: "locations_loop_st st data period locations (k # ks) =
              locations_loop_st st4 data period locations ks"
    unfolding st4_def l_def
    by (rule locations_loop_st_step [OF Cons.prems(1-6) k])
  have ne1: "data \<noteq> locations" and ne2: "period \<noteq> locations"
    using Cons.prems by auto
  have h1: "data < length st4" and h3: "period < length st4" and h5: "locations < length st4"
    using Cons.prems f1 by simp_all
  have h2: "st4 ! data = DataFrame rows"
    using f3 [OF Cons.prems(1) ne1] Cons.prems(2) by simp
  have h4: "st4 ! period = IntArray p"
    using f3 [OF Cons.prems(3) ne2] Cons.prems(4) by simp
  have h6: "st4 ! locations = Dict d4"
    unfolding st4_def d4_def by (rule year_store_dict [OF Cons.prems(5)])
  have h7: "wf_dict st4 d4"
    unfolding st4_def d4_def by (rule wf_dict_year_store [OF Cons.prems(5,6,7)])
  have h8: "\<forall>k \<in> set ks. k < length p" using Cons.prems(8) by simp
  from Cons.IH [OF h1 h2 h3 h4 h5 h6 h7 h8] obtain st' d' where
    r: "locations_loop_st st4 data period locations ks = Inr st'"
    and len: "length st4 \<le> length st'"
    and fr: "\<forall>a < length st4. a \<noteq> locations \<longrightarrow> st' ! a = st4 ! a"
    and dl: "st' ! locations = Dict d'"
    and dv: "dict_view st' d' = locations_loop rows (map ((!) p) ks) (dict_view st4 d4)"
    by blast
  have v4: "dict_view st4 d4 = (dict_view st d)(p ! k \<mapsto> np_array l)"
    unfolding st4_def d4_def by (rule dict_view_year_store [OF Cons.prems(5,6,7)])
  have fr': "\<forall>a < length st. a \<noteq> locations \<longrightarrow> st' ! a = st ! a"
  proof (intro allI impI)
    fix a assume a: "a < length st" and n: "a \<noteq> locations"
    then have "st' ! a = st4 ! a" using fr f1 by simp
    also have "\<dots> = st ! a" by (rule f3 [OF a n])
    finally show "st' ! a = st ! a" .
  qed
  have len': "length st \<le> length st'" using len f1 by simp
  have dv': "dict_view st' d' =
             locations_loop rows (map ((!) p) (k # ks)) (dict_view st d)"
    using dv v4 by (simp add: l_def)
  show ?case
    using step r len' fr' dl dv' by (intro exI [of _ st'] exI [of _ d']) simp
qed

lemma get_station_locations_st_ok:
  assumes "data < length st" and "st ! data = DataFrame rows"
    and "period < length st" and "st ! period = IntArray p"
  shows "\<exists>st' d'. get_station_locations_st st data period = Inr (st', length st) \<and>
           length st < length st' \<and>
           (\<forall>a < length st. st' ! a = st ! a) \<and>
           st' ! length st = Dict d' \<and>
           dict_view st' d' = get_station_locations rows p"
proof -
  define st1 where "st1 = st @ [Dict []]"
  have n: "array_size st1 period = Inr (length p)"
    using assms by (intro array_size_len) (simp_all add: st1_def nth_append)
  have "\<exists>st' d'. locations_loop_st st1 data period (length st) [0..<length p] = Inr st' \<and>
           length st1 \<le> length st' \<and>
           (\<forall>a < length st1. a \<noteq> length st \<longrightarrow> st' ! a = st1 ! a) \<and>
           st' ! length st = Dict d' \<and>
           dict_view st' d' =
             locations_loop rows (map ((!) p) [0..<length p]) (dict_view st1 [])"
    using assms
    by (intro locations_loop_st_ok) (simp_all add: st1_def nth_append wf_dict_def)
  then obtain st' d' where
    r: "locations_loop_st st1 data period (length st) [0..<length p] = Inr st'"
    and len: "length st1 \<le> length st'"
    and fr: "\<forall>a < length st1. a \<noteq> length st \<longrightarrow> st' ! a = st1 ! a"
    and dl: "st' ! length st = Dict d'"
    and dv: "dict_view st' d' =
             locations_loop rows (map ((!) p) [0..<length p]) (dict_view st1 [])"
    by blast
  have e: "dict_view st1 [] = Map.empty" by (simp add: dict_view_def)
  have dv': "dict_view st' d' = get_station_locations rows p"
    using dv by (simp add: e map_nth get_station_locations_def)
  have fr': "\<forall>a < length st. st' ! a = st ! a"
    using fr by (simp add: st1_def nth_append)
  have "get_station_locations_st st data period = Inr (st', length st)"
    using n r by (simp add: get_station_locations_st_def alloc_def st1_def)
  then show ?thesis
    using len fr' dl dv' by (intro exI [of _ st'] exI [of _ d']) (simp add: st1_def)
qed

text \<open>
  C10: with the table and the period array in the store, \<^verbatim>\<open>count_stations\<close> and
  \<^verbatim>\<open>get_station_locations\<close> return normally, every object that existed before the call
  (the table with all its columns and the period array among them) is the same after it,
  and the result is a new object holding the counts, respectively the locations.
\<close>

theorem aggregation_keeps_inputs:
  assumes "data < length st" and "st ! data = DataFrame rows"
    and "period < length st" and "st ! period = IntArray p"
  shows "(\<exists>st'. count_stations_st st data period = Inr (st', length st) \<and>
            (\<forall>a < length st. st' ! a = st ! a) \<and>
            st' ! data = DataFrame rows \<and> st' ! period = IntArray p \<and>
            st' ! length st = IntArray (count_stations rows p)) \<and>
         (\<exists>st' d. get_station_locations_st st data period = Inr (st', length st) \<and>
            (\<forall>a < length st. st' ! a = st ! a) \<and>
            st' ! data = DataFrame rows \<and> st' ! period = IntArray p \<and>
            st' ! length st = Dict d \<and>
            dict_view st' d = get_station_locations rows p)"
proof (intro conjI)
  have c: "count_stations_st st data period =
           Inr (st @ [IntArray (count_stations rows p)], length st)"
    by (rule count_stations_st_eq [OF assms])
  show "\<exists>st'. count_stations_st st data period = Inr (st', length st) \<and>
            (\<forall>a < length st. st' ! a = st ! a) \<and>
            st' ! data = DataFrame rows \<and> st' ! period = IntArray p \<and>
            st' ! length st = IntArray (count_stations rows p)"
    using c assms by (intro exI [of _ "st @ [IntArray (count_stations rows p)]"])
      (simp add: nth_append)
next
  from get_station_locations_st_ok [OF assms] obtain st' d where
    r: "get_station_locations_st st data period = Inr (st', length st)"
    and fr: "\<forall>a < length st. st' ! a = st ! a"
    and dl: "st' ! length st = Dict d"
    and dv: "dict_view st' d = get_station_locations rows p"
    by blast
  have "st' ! data = DataFrame rows" and "st' ! period = IntArray p"
    using fr assms by simp_all
  then show "\<exists>st' d. get_station_locations_st st data period = Inr (st', length st) \<and>
            (\<forall>a < length st. st' ! a = st ! a) \<and>
            st' ! data = DataFrame rows \<and> st' ! period = IntArray p \<and>
            st' ! length st = Dict d \<and>
            dict_view st' d = get_station_locations rows p"
    using r fr dl dv by (intro exI [of _ st'] exI [of _ d]) simp
qed

theorem aggregation_keeps_inputs_witness:
  "(0::nat) < length scenario_store \<and> scenario_store ! 0 = DataFrame scenario_table \<and>
   (1::nat) < length scenario_store \<and> scenario_store ! 1 = IntArray scenario_period \<and>
   (\<exists>st'. count_stations_st scenario_store 0 1 = Inr (st', 2) \<and>
      st' ! 0 = DataFrame scenario_table \<and> st' ! 1 = IntArray scenario_period \<and>
      st' ! 2 = IntArray (count_stations scenario_table scenario_period)) \<and>
   (\<exists>st' d. get_station_locations_st scenario_store 0 1 = Inr (st', 2) \<and>
      st' ! 0 = DataFrame scenario_table \<and> st' ! 1 = IntArray scenario_period \<and>
      st' ! 2 = Dict d \<and>
      dict_view st' d = get_station_locations scenario_table scenario_period)"
proof -
  have h1: "(0::nat) < length scenario_store"
    and h2: "scenario_store ! 0 = DataFrame scenario_table"
    and h3: "(1::nat) < length scenario_store"
    and h4: "scenario_store ! 1 = IntArray scenario_period"
    and len: "length scenario_store = 2"
    by (simp_all add: scenario_store_def)
  show ?thesis
    using aggregation_keeps_inputs [OF h1 h2 h3 h4] h1 h2 h3 h4 unfolding len by blast
qed

end
